theory Spec2Isabelle
  imports Main "HOL-Library.Word"
begin

section \<open>JavaScript strings\<close>

text \<open>
  A JavaScript string is a sequence of 16-bit UTF-16 code units: \<open>s.length\<close> counts
  code units, and \<open>substring\<close> and \<open>trim\<close> work on code units. The literals of
  \<^verbatim>\<open>src/src/App.vue\<close> that are plain ASCII are written as HOL strings and
  converted with \<open>js\<close>.
\<close>

type_synonym jsstring = "16 word list"

definition js :: "string \<Rightarrow> jsstring" where
  "js lit = map (\<lambda>c. of_char c) lit"

text \<open>
  \<open>s.substring(start, end)\<close>: both indices are clamped to \<open>[0, s.length]\<close> and
  swapped when \<open>start > end\<close>; \<open>s.substring(start)\<close> takes \<open>end = s.length\<close>.
\<close>

definition substring :: "jsstring \<Rightarrow> int \<Rightarrow> int \<Rightarrow> jsstring" where
  "substring s start end =
     (let len = int (length s);
          fs = min (max start 0) len;
          fe = min (max end 0) len;
          lo = min fs fe;
          hi = max fs fe
      in take (nat (hi - lo)) (drop (nat lo) s))"

definition substring_from :: "jsstring \<Rightarrow> int \<Rightarrow> jsstring" where
  "substring_from s start = substring s start (int (length s))"

text \<open>
  \<open>s.trim()\<close> removes the leading and trailing code units that are WhiteSpace or
  LineTerminator in ECMAScript: TAB, LF, VT, FF, CR, SPACE, NBSP, U+1680,
  U+2000 to U+200A, U+2028, U+2029, U+202F, U+205F, U+3000 and U+FEFF.
\<close>

definition is_white :: "16 word \<Rightarrow> bool" where
  "is_white c \<longleftrightarrow>
     c = 0x0009 \<or> c = 0x000A \<or> c = 0x000B \<or> c = 0x000C \<or> c = 0x000D \<or>
     c = 0x0020 \<or> c = 0x00A0 \<or> c = 0x1680 \<or> (0x2000 \<le> c \<and> c \<le> 0x200A) \<or>
     c = 0x2028 \<or> c = 0x2029 \<or> c = 0x202F \<or> c = 0x205F \<or> c = 0x3000 \<or>
     c = 0xFEFF"

definition trim :: "jsstring \<Rightarrow> jsstring" where
  "trim s = rev (dropWhile is_white (rev (dropWhile is_white s)))"

section \<open>The chat window: \<^verbatim>\<open>src/src/App.vue\<close>\<close>

subsection \<open>shortPeerID\<close>

text \<open>
  \<^verbatim>\<open>
  function shortPeerID(id) {
    if (id.length > 16) {
      return id.substring(0, 8) + '...' + id.substring(id.length - 6);
    }
    return id;
  }
  \<close>
\<close>

definition shortPeerID :: "jsstring \<Rightarrow> jsstring" where
  "shortPeerID id' =
     (if length id' > 16
      then substring id' 0 8 @ js ''...'' @ substring_from id' (int (length id') - 6)
      else id')"

subsection \<open>Component state\<close>

text \<open>
  The payload of a \<^verbatim>\<open>chat-message\<close> event and the entries of \<open>messages\<close>:
  \<^verbatim>\<open>{from, content, timestamp, is_self}\<close>. The field \<open>from\<close> is written \<open>from'\<close>.
\<close>

record chat_message =
  from' :: jsstring
  content :: jsstring
  timestamp :: jsstring
  is_self :: bool

text \<open>The value \<^verbatim>\<open>get_node_info\<close> resolves with: \<^verbatim>\<open>{addresses, connected_peers}\<close>.\<close>

record node_info =
  info_addresses :: "jsstring list"
  info_connected_peers :: "jsstring list"

text \<open>The refs of the component, one field for each \<^verbatim>\<open>ref(...)\<close> of the script.\<close>

record app =
  messages :: "chat_message list"
  inputMessage :: jsstring
  peerID :: jsstring
  addresses :: "jsstring list"
  connectedPeers :: "jsstring list"
  isInitialized :: bool
  joinRoomMode :: bool
  connectPeerMode :: bool
  roomInput :: jsstring
  peerAddressInput :: jsstring
  currentRoom :: jsstring
  copiedIndex :: int

definition initial_app :: app where
  "initial_app =
     \<lparr>messages = [], inputMessage = [], peerID = [], addresses = [], connectedPeers = [],
      isInitialized = False, joinRoomMode = False, connectPeerMode = False,
      roomInput = [], peerAddressInput = [], currentRoom = [], copiedIndex = -1\<rparr>"

subsection \<open>Effects\<close>

text \<open>
  What a handler does outside the refs is logged, in order: a call of \<open>invoke\<close> with the
  command name and the argument object (its keys and values, in source order), a
  \<open>console.error\<close> with its label and the error, a timer registration with its callback
  and delay in milliseconds, the scrolling of the message container (a DOM property, not
  a ref), a clipboard write, \<open>event.preventDefault()\<close>, and the registrations made by
  \<open>onMounted\<close>.
\<close>

datatype callback = UpdateNodeInfo | ResetCopiedIndex

datatype effect =
    Invoke string "(string \<times> jsstring) list"
  | ConsoleError string jsstring
  | SetInterval callback nat
  | SetTimeout callback nat
  | ScrollToBottom
  | ClipboardWrite jsstring
  | PreventDefault
  | Listen string
  | AddEventListener string

text \<open>
  The backend answers an \<open>invoke\<close> by resolving (\<open>Inr\<close>, with the command's value) or by
  rejecting (\<open>Inl\<close>, with the error; the handlers only ever concatenate it to a string, so
  it is kept as its string conversion). The answer is an argument of the handler. The
  current time as an ISO string, \<^verbatim>\<open>new Date().toISOString()\<close>, is the argument \<open>now\<close>.

  A handler that awaits is written in two parts: \<open>f_resume\<close> is what runs after the
  \<open>await\<close>, on the state the component has at that moment, and \<open>f\<close> is the whole handler
  when nothing else runs in between.
\<close>

subsection \<open>Handlers\<close>

text \<open>
  \<^verbatim>\<open>
  function addSystemMessage(content) {
    messages.value.push({ from: 'System', content,
                          timestamp: new Date().toISOString(), is_self: false });
    scrollToBottom();
  }
  \<close>
\<close>

definition addSystemMessage :: "jsstring \<Rightarrow> jsstring \<Rightarrow> app \<Rightarrow> app \<times> effect list" where
  "addSystemMessage now text s =
     (s\<lparr>messages := messages s @
          [\<lparr>from' = js ''System'', content = text, timestamp = now, is_self = False\<rparr>]\<rparr>,
      [ScrollToBottom])"

text \<open>
  \<^verbatim>\<open>
  async function updateNodeInfo() {
    try {
      const info = await invoke('get_node_info');
      addresses.value = info.addresses;
      connectedPeers.value = info.connected_peers;
    } catch (error) { console.error('Failed to get node info:', error); }
  }
  \<close>
\<close>

definition updateNodeInfo_resume :: "jsstring + node_info \<Rightarrow> app \<Rightarrow> app \<times> effect list" where
  "updateNodeInfo_resume reply s =
     (case reply of
        Inr info \<Rightarrow>
          (s\<lparr>addresses := info_addresses info,
             connectedPeers := info_connected_peers info\<rparr>, [])
      | Inl error \<Rightarrow> (s, [ConsoleError ''Failed to get node info:'' error]))"

definition updateNodeInfo :: "jsstring + node_info \<Rightarrow> app \<Rightarrow> app \<times> effect list" where
  "updateNodeInfo reply s =
     (let (s', fx) = updateNodeInfo_resume reply s
      in (s', Invoke ''get_node_info'' [] # fx))"

text \<open>
  \<^verbatim>\<open>
  async function initP2P() {
    try {
      const id = await invoke('init_p2p');
      peerID.value = id;
      isInitialized.value = true;
      updateNodeInfo();
      setInterval(updateNodeInfo, 5000);
    } catch (error) {
      console.error('Failed to initialize P2P:', error);
      addSystemMessage('<U+274C> Failed to initialize P2P node: ' + error);
    }
  }
  \<close>
  \<open>updateNodeInfo()\<close> is not awaited: it runs up to its own \<open>await\<close>, so its \<open>invoke\<close>
  comes before \<open>setInterval\<close> and its continuation after.
\<close>

definition initP2P_resume ::
  "jsstring \<Rightarrow> jsstring + jsstring \<Rightarrow> jsstring + node_info \<Rightarrow> app \<Rightarrow> app \<times> effect list" where
  "initP2P_resume now reply info_reply s =
     (case reply of
        Inr id' \<Rightarrow>
          (let s1 = s\<lparr>peerID := id', isInitialized := True\<rparr>;
               (s2, fx) = updateNodeInfo_resume info_reply s1
           in (s2, Invoke ''get_node_info'' [] # SetInterval UpdateNodeInfo 5000 # fx))
      | Inl error \<Rightarrow>
          (let (s', fx) =
                 addSystemMessage now
                   (0x274C # js '' Failed to initialize P2P node: '' @ error) s
           in (s', ConsoleError ''Failed to initialize P2P:'' error # fx)))"

definition initP2P ::
  "jsstring \<Rightarrow> jsstring + jsstring \<Rightarrow> jsstring + node_info \<Rightarrow> app \<Rightarrow> app \<times> effect list" where
  "initP2P now reply info_reply s =
     (let (s', fx) = initP2P_resume now reply info_reply s
      in (s', Invoke ''init_p2p'' [] # fx))"

text \<open>
  \<^verbatim>\<open>
  async function sendMessage() {
    if (!inputMessage.value.trim()) return;
    try {
      await invoke('send_message', { message: inputMessage.value });
      inputMessage.value = '';
    } catch (error) {
      console.error('Failed to send message:', error);
      addSystemMessage('<U+26A0> Failed to send message: ' + error);
    }
  }
  \<close>
  \<open>!str\<close> holds exactly for the empty string.
\<close>

definition sendMessage_resume :: "jsstring \<Rightarrow> jsstring + unit \<Rightarrow> app \<Rightarrow> app \<times> effect list" where
  "sendMessage_resume now reply s =
     (case reply of
        Inr _ \<Rightarrow> (s\<lparr>inputMessage := []\<rparr>, [])
      | Inl error \<Rightarrow>
          (let (s', fx) =
                 addSystemMessage now (0x26A0 # js '' Failed to send message: '' @ error) s
           in (s', ConsoleError ''Failed to send message:'' error # fx)))"

definition sendMessage :: "jsstring \<Rightarrow> jsstring + unit \<Rightarrow> app \<Rightarrow> app \<times> effect list" where
  "sendMessage now reply s =
     (if trim (inputMessage s) = [] then (s, [])
      else let (s', fx) = sendMessage_resume now reply s
           in (s', Invoke ''send_message'' [(''message'', inputMessage s)] # fx))"

text \<open>
  \<^verbatim>\<open>
  async function joinRoom() {
    if (!roomInput.value.trim()) return;
    try {
      await invoke('join_room', { roomName: roomInput.value });
      currentRoom.value = roomInput.value;
      joinRoomMode.value = false;
      roomInput.value = '';
    } catch (error) {
      console.error('Failed to join room:', error);
      addSystemMessage('<U+26A0> Failed to join room: ' + error);
    }
  }
  \<close>
\<close>

definition joinRoom_resume :: "jsstring \<Rightarrow> jsstring + unit \<Rightarrow> app \<Rightarrow> app \<times> effect list" where
  "joinRoom_resume now reply s =
     (case reply of
        Inr _ \<Rightarrow>
          (s\<lparr>currentRoom := roomInput s, joinRoomMode := False, roomInput := []\<rparr>, [])
      | Inl error \<Rightarrow>
          (let (s', fx) =
                 addSystemMessage now (0x26A0 # js '' Failed to join room: '' @ error) s
           in (s', ConsoleError ''Failed to join room:'' error # fx)))"

definition joinRoom :: "jsstring \<Rightarrow> jsstring + unit \<Rightarrow> app \<Rightarrow> app \<times> effect list" where
  "joinRoom now reply s =
     (if trim (roomInput s) = [] then (s, [])
      else let (s', fx) = joinRoom_resume now reply s
           in (s', Invoke ''join_room'' [(''roomName'', roomInput s)] # fx))"

text \<open>
  \<^verbatim>\<open>
  async function connectToPeer() {
    if (!peerAddressInput.value.trim()) return;
    try {
      await invoke('connect_to_peer', { addr: peerAddressInput.value });
      connectPeerMode.value = false;
      peerAddressInput.value = '';
    } catch (error) {
      console.error('Failed to connect to peer:', error);
      addSystemMessage('<U+26A0> Failed to connect to peer: ' + error);
    }
  }
  \<close>
\<close>

definition connectToPeer_resume :: "jsstring \<Rightarrow> jsstring + unit \<Rightarrow> app \<Rightarrow> app \<times> effect list" where
  "connectToPeer_resume now reply s =
     (case reply of
        Inr _ \<Rightarrow> (s\<lparr>connectPeerMode := False, peerAddressInput := []\<rparr>, [])
      | Inl error \<Rightarrow>
          (let (s', fx) =
                 addSystemMessage now (0x26A0 # js '' Failed to connect to peer: '' @ error) s
           in (s', ConsoleError ''Failed to connect to peer:'' error # fx)))"

definition connectToPeer :: "jsstring \<Rightarrow> jsstring + unit \<Rightarrow> app \<Rightarrow> app \<times> effect list" where
  "connectToPeer now reply s =
     (if trim (peerAddressInput s) = [] then (s, [])
      else let (s', fx) = connectToPeer_resume now reply s
           in (s', Invoke ''connect_to_peer'' [(''addr'', peerAddressInput s)] # fx))"

text \<open>
  \<^verbatim>\<open>
  function handleKeydown(event) {
    if (event.ctrlKey && event.key === 'j') { event.preventDefault(); joinRoomMode.value = true; }
    if (event.ctrlKey && event.key === 'p') { event.preventDefault(); connectPeerMode.value = true; }
  }
  \<close>
\<close>

definition handleKeydown :: "bool \<Rightarrow> jsstring \<Rightarrow> app \<Rightarrow> app \<times> effect list" where
  "handleKeydown ctrlKey key s =
     (let (s1, fx1) = (if ctrlKey \<and> key = js ''j''
                       then (s\<lparr>joinRoomMode := True\<rparr>, [PreventDefault]) else (s, []));
          (s2, fx2) = (if ctrlKey \<and> key = js ''p''
                       then (s1\<lparr>connectPeerMode := True\<rparr>, [PreventDefault]) else (s1, []))
      in (s2, fx1 @ fx2))"

text \<open>
  \<^verbatim>\<open>
  async function copyAddress(addr, index) {
    try {
      await navigator.clipboard.writeText(addr);
      copiedIndex.value = index;
      setTimeout(() => { copiedIndex.value = -1; }, 2000);
    } catch (error) { console.error('Failed to copy:', error); }
  }
  \<close>
\<close>

definition copyAddress :: "jsstring + unit \<Rightarrow> jsstring \<Rightarrow> int \<Rightarrow> app \<Rightarrow> app \<times> effect list" where
  "copyAddress reply addr index s =
     (case reply of
        Inr _ \<Rightarrow> (s\<lparr>copiedIndex := index\<rparr>,
                  [ClipboardWrite addr, SetTimeout ResetCopiedIndex 2000])
      | Inl error \<Rightarrow> (s, [ClipboardWrite addr, ConsoleError ''Failed to copy:'' error]))"

text \<open>
  The listener registered by \<open>onMounted\<close>:
  \<^verbatim>\<open>
  unlisten = await listen('chat-message', (event) => {
    messages.value.push(event.payload);
    scrollToBottom();
  });
  window.addEventListener('keydown', handleKeydown);
  await initP2P();
  \<close>
\<close>

definition chat_message_listener :: "chat_message \<Rightarrow> app \<Rightarrow> app \<times> effect list" where
  "chat_message_listener payload s = (s\<lparr>messages := messages s @ [payload]\<rparr>, [ScrollToBottom])"

definition onMounted ::
  "jsstring \<Rightarrow> jsstring + jsstring \<Rightarrow> jsstring + node_info \<Rightarrow> app \<Rightarrow> app \<times> effect list" where
  "onMounted now reply info_reply s =
     (let (s', fx) = initP2P now reply info_reply s
      in (s', Listen ''chat-message'' # AddEventListener ''keydown'' # fx))"

text \<open>
  Everything that can run in the component: the lifecycle hook, the two timer callbacks,
  the \<^verbatim>\<open>chat-message\<close> listener, the key handler, and what the template binds (the
  three \<open>v-model\<close> inputs, the buttons and key bindings that call a handler, and the inline
  assignments that close or cancel a dialog).
\<close>

datatype ui_event =
    Mounted "jsstring + jsstring" "jsstring + node_info"
  | IntervalFired "jsstring + node_info"
  | CopiedTimeout
  | ChatMessage chat_message
  | Keydown bool jsstring
  | TypeMessage jsstring
  | TypeRoom jsstring
  | TypePeerAddress jsstring
  | SendMessage "jsstring + unit"
  | JoinRoom "jsstring + unit"
  | ConnectToPeer "jsstring + unit"
  | CopyAddress "jsstring + unit" jsstring int
  | CloseJoinRoom
  | CancelJoinRoom
  | CloseConnectPeer
  | CancelConnectPeer

fun handle :: "jsstring \<Rightarrow> ui_event \<Rightarrow> app \<Rightarrow> app \<times> effect list" where
  "handle now (Mounted reply info_reply) s = onMounted now reply info_reply s"
| "handle now (IntervalFired info_reply) s = updateNodeInfo info_reply s"
| "handle now CopiedTimeout s = (s\<lparr>copiedIndex := -1\<rparr>, [])"
| "handle now (ChatMessage payload) s = chat_message_listener payload s"
| "handle now (Keydown ctrlKey key) s = handleKeydown ctrlKey key s"
| "handle now (TypeMessage v) s = (s\<lparr>inputMessage := v\<rparr>, [])"
| "handle now (TypeRoom v) s = (s\<lparr>roomInput := v\<rparr>, [])"
| "handle now (TypePeerAddress v) s = (s\<lparr>peerAddressInput := v\<rparr>, [])"
| "handle now (SendMessage reply) s = sendMessage now reply s"
| "handle now (JoinRoom reply) s = joinRoom now reply s"
| "handle now (ConnectToPeer reply) s = connectToPeer now reply s"
| "handle now (CopyAddress reply addr index) s = copyAddress reply addr index s"
| "handle now CloseJoinRoom s = (s\<lparr>joinRoomMode := False\<rparr>, [])"
| "handle now CancelJoinRoom s = (s\<lparr>joinRoomMode := False, roomInput := []\<rparr>, [])"
| "handle now CloseConnectPeer s = (s\<lparr>connectPeerMode := False\<rparr>, [])"
| "handle now CancelConnectPeer s = (s\<lparr>connectPeerMode := False, peerAddressInput := []\<rparr>, [])"

text \<open>
  A run of the component: the events are handled one after the other, each at its own
  time.
\<close>

fun run :: "(jsstring \<times> ui_event) list \<Rightarrow> app \<Rightarrow> app \<times> effect list" where
  "run [] s = (s, [])"
| "run ((now, ev) # evs) s =
     (let (s1, fx1) = handle now ev s;
          (s2, fx2) = run evs s1
      in (s2, fx1 @ fx2))"

text \<open>The calls of \<open>invoke\<close> among the effects, in order.\<close>

fun invocations :: "effect list \<Rightarrow> (string \<times> (string \<times> jsstring) list) list" where
  "invocations [] = []"
| "invocations (Invoke c a # fx) = (c, a) # invocations fx"
| "invocations (_ # fx) = invocations fx"

text \<open>
  The command table of section 6 of the specification, in its words: each command with
  the keys of its input object.
\<close>

definition command_table :: "(string \<times> string list) list" where
  "command_table =
     [(''init_p2p'', []),
      (''get_node_info'', []),
      (''send_message'', [''message'']),
      (''join_room'', [''roomName'']),
      (''connect_to_peer'', [''addr''])]"

text \<open>
  Timers, idealised (no drift, callbacks take no time): an interval of period \<open>p\<close>
  registered at time 0 fires at \<open>p, 2p, 3p, ...\<close>. \<open>poll_times fx t\<close> lists the times up
  to \<open>t\<close> milliseconds at which \<^verbatim>\<open>get_node_info\<close> is invoked when a handler that ran at
  time 0 had the effects \<open>fx\<close>: once at 0 for each \<open>invoke\<close> in \<open>fx\<close>, and once at every firing
  of each interval whose callback is \<open>updateNodeInfo\<close>, which invokes it once.
\<close>

definition interval_firings :: "nat \<Rightarrow> nat \<Rightarrow> nat list" where
  "interval_firings p t = (if p = 0 then [] else map (\<lambda>k. k * p) [1..<Suc (t div p)])"

fun poll_times :: "effect list \<Rightarrow> nat \<Rightarrow> nat list" where
  "poll_times [] t = []"
| "poll_times (Invoke c a # fx) t =
     (if c = ''get_node_info'' then 0 # poll_times fx t else poll_times fx t)"
| "poll_times (SetInterval UpdateNodeInfo p # fx) t = interval_firings p t @ poll_times fx t"
| "poll_times (_ # fx) t = poll_times fx t"

subsection \<open>A sample state\<close>

text \<open>The component with a message, a room name and a peer address typed in.\<close>

definition demo_app :: app where
  "demo_app = initial_app\<lparr>inputMessage := js ''hi'', roomInput := js ''lobby'',
                 peerAddressInput := js ''/ip4/10.0.0.2/tcp/4001/p2p/12D3KooWPeer''\<rparr>"

section \<open>The node behind the commands\<close>

text \<open>
  Modelled from the spec: the native node that answers the five commands and emits
  \<^verbatim>\<open>chat-message\<close> is not among the source files (only its caller, the chat window,
  is). Every definition of this section follows sections 3, 4.2, 4.3, 5, 6 and 7 of the
  specification, not code.
\<close>

text \<open>
  Modelled from the spec: the error taxonomy of section 7 (the node's code is missing).
\<close>

datatype node_error =
    TransportBindError
  | InvalidAddressError
  | InvalidRoomNameError
  | EmptyMessageError
  | DialTimeoutError
  | UnreachablePeerError
  | NotJoinedError
  | AlreadyDialingError

text \<open>
  Modelled from the spec: the data model of section 3 (the node's types are missing).
  A PeerConnection has a remote identifier, a remote address and a state. A Message \<open>{senderId, content, timestamp, originFlag}\<close> is carried as the payload of
  section 6, \<open>{from, content, timestamp, is_self}\<close>, with \<open>is_self\<close> for
  \<open>originFlag = local\<close>.
\<close>

datatype conn_state = Dialing | Connected | Closing | Closed

record peer_connection =
  remote_id :: jsstring
  remote_addr :: jsstring
  link_state :: conn_state

text \<open>
  Modelled from the spec: the node's state, missing from the source. It holds its public
  identifier, its listen addresses, the PeerConnections of the
  Connection Manager, the current-room subscription set, and the recent history of the
  deduplication, keyed by (senderId, timestamp, content-hash), most recent first.
\<close>

record node =
  identity :: jsstring
  listen_addresses :: "jsstring list"
  connections :: "peer_connection list"
  subscriptions :: "jsstring list"
  recent :: "(jsstring \<times> jsstring \<times> nat) list"

definition initial_node :: "jsstring \<Rightarrow> jsstring list \<Rightarrow> node" where
  "initial_node ident addrs =
     \<lparr>identity = ident, listen_addresses = addrs, connections = [],
      subscriptions = [], recent = []\<rparr>"

text \<open>
  Modelled from the spec: what the node depends on and the spec leaves open is a
  parameter, namely the outcome of a dial (the network), the content hash and the size of
  the deduplication window.
\<close>

datatype dial_outcome = DialConnected | DialTimeout | DialUnreachable

record env =
  dial :: "jsstring \<Rightarrow> dial_outcome"
  content_hash :: "jsstring \<Rightarrow> nat"
  dedup_window :: nat

text \<open>
  Modelled from the spec: the observable effects of the missing node. An operation,
  besides changing the node, has: the \<^verbatim>\<open>chat-message\<close> events it
  emits to the consumer, the peer-set-changed notification, and its network I/O (a dial,
  a subscription or its teardown announced to the peers, a broadcast to a topic).
\<close>

datatype node_effect =
    Emit chat_message
  | PeerSetChanged
  | NetDial jsstring
  | NetSubscribe jsstring
  | NetUnsubscribe jsstring
  | NetBroadcast jsstring chat_message

fun is_network_io :: "node_effect \<Rightarrow> bool" where
  "is_network_io (Emit _) = False"
| "is_network_io PeerSetChanged = False"
| "is_network_io _ = True"

fun emitted :: "node_effect list \<Rightarrow> chat_message list" where
  "emitted [] = []"
| "emitted (Emit m # fx) = m # emitted fx"
| "emitted (_ # fx) = emitted fx"

subsection \<open>Peer Connection Manager (section 4.2)\<close>

text \<open>
  Modelled from the spec: the address syntax of section 6 (the node's parser is missing).
  An address is a multi-segment string embedding protocol, host, port and the
  peer identifier as its suffix (\<open>protocol/ip/port/identity\<close>). The segments are what
  lies between the \<open>/\<close>; an address is well formed when it has at least these four
  non-empty segments, and its last one is the remote identifier.
\<close>

fun segments :: "jsstring \<Rightarrow> jsstring list" where
  "segments [] = [[]]"
| "segments (c # cs) =
     (if c = 0x002F then [] # segments cs
      else (case segments cs of seg # segs \<Rightarrow> (c # seg) # segs | [] \<Rightarrow> [[c]]))"

definition parse_address :: "jsstring \<Rightarrow> jsstring option" where
  "parse_address addr =
     (let segs = filter (\<lambda>seg. seg \<noteq> []) (segments addr)
      in if length segs \<ge> 4 then Some (last segs) else None)"

text \<open>
  Modelled from the spec: \<open>connectedPeers()\<close> of section 4.2, the identifiers of the peers
  with a PeerConnection in state connected, each once.
\<close>

definition connected_peers :: "node \<Rightarrow> jsstring list" where
  "connected_peers n =
     remdups (map remote_id (filter (\<lambda>c. link_state c = Connected) (connections n)))"

text \<open>
  Modelled from the spec: \<open>connect(address)\<close> of section 4.2, missing from the source.
  It validates the syntax (\<open>InvalidAddressError\<close>); rejects an address
  already in state dialing (\<open>AlreadyDialingError\<close>, section 5); attempts a single dial,
  whose failure is reported (\<open>DialTimeoutError\<close>, \<open>UnreachablePeerError\<close>); on success
  registers a PeerConnection in state connected and emits peer-set-changed.
\<close>

definition connect :: "env \<Rightarrow> jsstring \<Rightarrow> node \<Rightarrow> (node_error + unit) \<times> node \<times> node_effect list" where
  "connect e addr n =
     (case parse_address addr of
        None \<Rightarrow> (Inl InvalidAddressError, n, [])
      | Some rid \<Rightarrow>
          if \<exists>c \<in> set (connections n). remote_addr c = addr \<and> link_state c = Dialing
          then (Inl AlreadyDialingError, n, [])
          else (case dial e addr of
                  DialTimeout \<Rightarrow> (Inl DialTimeoutError, n, [NetDial addr])
                | DialUnreachable \<Rightarrow> (Inl UnreachablePeerError, n, [NetDial addr])
                | DialConnected \<Rightarrow>
                    (Inr (),
                     n\<lparr>connections := connections n @
                          [\<lparr>remote_id = rid, remote_addr = addr, link_state = Connected\<rparr>]\<rparr>,
                     [NetDial addr, PeerSetChanged])))"

text \<open>
  Modelled from the spec: disconnection (section 4.2) removes the PeerConnection and emits
  the same notification.
\<close>

definition disconnect :: "jsstring \<Rightarrow> node \<Rightarrow> node \<times> node_effect list" where
  "disconnect rid n =
     (if rid \<in> set (map remote_id (connections n))
      then (n\<lparr>connections := filter (\<lambda>c. remote_id c \<noteq> rid) (connections n)\<rparr>,
            [PeerSetChanged])
      else (n, []))"

subsection \<open>Room Pub/Sub Engine (section 4.3)\<close>

text \<open>
  Modelled from the spec: tearing down and registering a subscription in the current-room
  subscription set (sections 4.3 and 5).
\<close>

definition leave :: "jsstring \<Rightarrow> node \<Rightarrow> node" where
  "leave room n = n\<lparr>subscriptions := removeAll room (subscriptions n)\<rparr>"

definition subscribe :: "jsstring \<Rightarrow> node \<Rightarrow> node" where
  "subscribe room n = n\<lparr>subscriptions := room # subscriptions n\<rparr>"

text \<open>
  Modelled from the spec: \<open>join(roomName)\<close> of section 4.3, missing from the source.
  A non-empty string is required, else \<open>InvalidRoomNameError\<close>;
  a no-op if already joined to the same room; otherwise every previous subscription
  is torn down first, then the topic is subscribed.
\<close>

definition join :: "jsstring \<Rightarrow> node \<Rightarrow> (node_error + unit) \<times> node \<times> node_effect list" where
  "join room n =
     (if room = [] then (Inl InvalidRoomNameError, n, [])
      else if room \<in> set (subscriptions n) then (Inr (), n, [])
      else (Inr (),
            subscribe room (fold leave (subscriptions n) n),
            map NetUnsubscribe (subscriptions n) @ [NetSubscribe room]))"

text \<open>
  Modelled from the spec: \<open>publish(content)\<close> of section 4.3, missing from the source.
  It requires an active room (\<open>NotJoinedError\<close>) and non-empty content
  (\<open>EmptyMessageError\<close>), in this order; produces a Message with \<open>originFlag = local\<close>,
  delivers it to the local consumer at once and broadcasts it to the current room.
\<close>

definition publish ::
  "jsstring \<Rightarrow> jsstring \<Rightarrow> node \<Rightarrow> (node_error + unit) \<times> node \<times> node_effect list" where
  "publish now text n =
     (if subscriptions n = [] then (Inl NotJoinedError, n, [])
      else if text = [] then (Inl EmptyMessageError, n, [])
      else (let m = \<lparr>from' = identity n, content = text, timestamp = now, is_self = True\<rparr>
            in (Inr (), n, Emit m # map (\<lambda>room. NetBroadcast room m) (subscriptions n))))"

text \<open>
  Modelled from the spec: the inbound message handling of section 4.3, missing from the
  source. A message received on a topic the node is joined to is
  looked up in the recent history by (senderId, timestamp, content-hash); a duplicate
  is dropped, anything else is emitted once with \<open>originFlag = remote\<close> and remembered.
  The history keeps the \<open>dedup_window\<close> most recently seen keys.
\<close>

definition receive ::
  "env \<Rightarrow> jsstring \<Rightarrow> jsstring \<Rightarrow> jsstring \<Rightarrow> jsstring \<Rightarrow> node \<Rightarrow> node \<times> node_effect list" where
  "receive e topic sender ts text n =
     (if topic \<notin> set (subscriptions n) then (n, [])
      else (let key = (sender, ts, content_hash e text);
                hist = take (dedup_window e) (key # removeAll key (recent n))
            in if key \<in> set (recent n) then (n\<lparr>recent := hist\<rparr>, [])
               else (n\<lparr>recent := hist\<rparr>,
                     [Emit \<lparr>from' = sender, content = text, timestamp = ts, is_self = False\<rparr>])))"

subsection \<open>Command API (sections 4.4 and 6)\<close>

text \<open>
  Modelled from the spec: the command API of sections 4.4 and 6, a thin adapter onto the
  operations above. What reaches the node is one of the three commands that change it,
  with its input, or the network (a message gossiped on a topic, a peer going away); a
  run handles the inputs one after the other. \<^verbatim>\<open>get_node_info\<close> reads a snapshot.
\<close>

datatype node_input =
    SendMessageCmd jsstring jsstring
  | JoinRoomCmd jsstring
  | ConnectToPeerCmd jsstring
  | Inbound jsstring jsstring jsstring jsstring
  | PeerGone jsstring

fun node_step :: "env \<Rightarrow> node_input \<Rightarrow> node \<Rightarrow> (node_error + unit) \<times> node \<times> node_effect list" where
  "node_step e (SendMessageCmd now message) n = publish now message n"
| "node_step e (JoinRoomCmd roomName) n = join roomName n"
| "node_step e (ConnectToPeerCmd addr) n = connect e addr n"
| "node_step e (Inbound topic sender ts text) n =
     (let (n', fx) = receive e topic sender ts text n in (Inr (), n', fx))"
| "node_step e (PeerGone rid) n =
     (let (n', fx) = disconnect rid n in (Inr (), n', fx))"

fun node_run :: "env \<Rightarrow> node_input list \<Rightarrow> node \<Rightarrow> node \<times> node_effect list" where
  "node_run e [] n = (n, [])"
| "node_run e (i # is) n =
     (let (r, n1, fx1) = node_step e i n;
          (n2, fx2) = node_run e is n1
      in (n2, fx1 @ fx2))"

definition get_node_info :: "node \<Rightarrow> node_info" where
  "get_node_info n =
     \<lparr>info_addresses = listen_addresses n, info_connected_peers = connected_peers n\<rparr>"

text \<open>
  Modelled from the spec: the inputs that are a \<^verbatim>\<open>join_room\<close> command, and the
  messages gossiped on a given topic.
\<close>

fun is_join :: "node_input \<Rightarrow> bool" where
  "is_join (JoinRoomCmd _) = True"
| "is_join _ = False"

fun is_inbound_on :: "jsstring \<Rightarrow> node_input \<Rightarrow> bool" where
  "is_inbound_on room (Inbound topic _ _ _) = (topic = room)"
| "is_inbound_on room _ = False"

subsection \<open>A sample node\<close>

text \<open>
  Modelled from the spec: a sample of the missing node, which can reach one peer, hashes
  a content to its length and remembers the last eight keys.
\<close>

definition demo_env :: env where
  "demo_env =
     \<lparr>dial = (\<lambda>addr. if addr = js ''/ip4/10.0.0.2/tcp/4001/p2p/12D3KooWPeer''
                      then DialConnected else DialUnreachable),
      content_hash = length,
      dedup_window = 8\<rparr>"

definition demo_node :: node where
  "demo_node = initial_node (js ''12D3KooWSelf'') [js ''/ip4/10.0.0.1/tcp/4001/p2p/12D3KooWSelf'']"

section \<open>Properties\<close>

lemma substring_prefix:
  "int (length s) \<ge> n \<Longrightarrow> 0 \<le> n \<Longrightarrow> substring s 0 n = take (nat n) s"
  by (simp add: substring_def Let_def min_def max_def)

lemma substring_from_suffix:
  "0 \<le> k \<Longrightarrow> k \<le> int (length s) \<Longrightarrow> substring_from s k = drop (nat k) s"
proof -
  assume k: "0 \<le> k" "k \<le> int (length s)"
  then have "length s - nat k \<le> nat (int (length s) - k)" by arith
  with k show ?thesis
    by (simp add: substring_from_def substring_def Let_def min_def max_def)
qed

text \<open>
  Claim C10. For every string \<open>id\<close>, \<open>shortPeerID(id)\<close> is \<open>id\<close> itself when its length
  is at most 16; otherwise it is the string of length 17 made of the first 8 code units
  of \<open>id\<close>, the literal \<open>...\<close> and the last 6 code units of \<open>id\<close>.
\<close>

theorem shortPeerID_spec:
  "shortPeerID s =
     (if length s \<le> 16 then s
      else take 8 s @ js ''...'' @ drop (length s - 6) s)
   \<and> (length s > 16 \<longrightarrow> length (shortPeerID s) = 17)"
proof (cases "length s \<le> 16")
  case True
  then show ?thesis by (simp add: shortPeerID_def)
next
  case False
  then have len: "16 < length s" by simp
  have p: "substring s 0 8 = take 8 s"
    using len substring_prefix [of 8 s] by simp
  have "nat (int (length s) - 6) = length s - 6" by simp
  then have q: "substring_from s (int (length s) - 6) = drop (length s - 6) s"
    using len substring_from_suffix [of "int (length s) - 6" s] by simp
  have eq: "shortPeerID s = take 8 s @ js ''...'' @ drop (length s - 6) s"
    using len p q by (simp add: shortPeerID_def)
  have "length (take 8 s @ js ''...'' @ drop (length s - 6) s) = 17"
    using len by (simp add: js_def)
  with eq len show ?thesis by simp
qed

theorem shortPeerID_spec_witness:
  "shortPeerID (js ''12D3KooWAbCdEfGhIjKlMnOp'') = js ''12D3KooW...KlMnOp''
   \<and> length (shortPeerID (js ''12D3KooWAbCdEfGhIjKlMnOp'')) = 17
   \<and> shortPeerID (js ''0123456789abcdef'') = js ''0123456789abcdef''"
  using shortPeerID_spec [of "js ''12D3KooWAbCdEfGhIjKlMnOp''"]
        shortPeerID_spec [of "js ''0123456789abcdef''"]
  by (simp add: js_def)


subsection \<open>The chat window\<close>

lemma js_Nil_iff [simp]: "js lit = [] \<longleftrightarrow> lit = []"
  by (simp add: js_def)

lemma dropWhile_all_iff:
  "(\<forall>x \<in> set (dropWhile P xs). P x) \<longleftrightarrow> dropWhile P xs = []"
proof
  assume all: "\<forall>x \<in> set (dropWhile P xs). P x"
  show "dropWhile P xs = []"
  proof (rule ccontr)
    assume ne: "dropWhile P xs \<noteq> []"
    then have "\<not> P (hd (dropWhile P xs))" by (rule hd_dropWhile)
    moreover from ne have "hd (dropWhile P xs) \<in> set (dropWhile P xs)" by simp
    ultimately show False using all by blast
  qed
next
  assume "dropWhile P xs = []"
  then show "\<forall>x \<in> set (dropWhile P xs). P x" by (simp only: list.set(1) ball_empty)
qed

lemma trim_empty_iff: "trim s = [] \<longleftrightarrow> (\<forall>c \<in> set s. is_white c)"
  by (simp add: trim_def dropWhile_all_iff)

lemma invocations_append: "invocations (fx @ gx) = invocations fx @ invocations gx"
  by (induction fx rule: invocations.induct) simp_all

lemma inv_sendMessage: "invocations (snd (sendMessage now r s)) =
   (if trim (inputMessage s) = [] then [] else [(''send_message'', [(''message'', inputMessage s)])])"
  by (simp add: sendMessage_def sendMessage_resume_def addSystemMessage_def split: sum.splits)

lemma inv_joinRoom: "invocations (snd (joinRoom now r s)) =
   (if trim (roomInput s) = [] then [] else [(''join_room'', [(''roomName'', roomInput s)])])"
  by (simp add: joinRoom_def joinRoom_resume_def addSystemMessage_def split: sum.splits)

lemma inv_connectToPeer: "invocations (snd (connectToPeer now r s)) =
   (if trim (peerAddressInput s) = [] then [] else [(''connect_to_peer'', [(''addr'', peerAddressInput s)])])"
  by (simp add: connectToPeer_def connectToPeer_resume_def addSystemMessage_def split: sum.splits)

lemma inv_updateNodeInfo: "invocations (snd (updateNodeInfo i s)) = [(''get_node_info'', [])]"
  by (simp add: updateNodeInfo_def updateNodeInfo_resume_def split: sum.splits)

lemma inv_initP2P: "invocations (snd (initP2P now r i s)) =
   (case r of Inr _ \<Rightarrow> [(''init_p2p'', []), (''get_node_info'', [])] | Inl _ \<Rightarrow> [(''init_p2p'', [])])"
  by (cases r; cases i)
     (simp_all add: initP2P_def initP2P_resume_def updateNodeInfo_resume_def addSystemMessage_def)

lemma inv_other:
  "invocations (snd (handleKeydown k c s)) = []"
  "invocations (snd (copyAddress r a ix s)) = []"
  "invocations (snd (chat_message_listener p s)) = []"
  by (simp_all add: handleKeydown_def copyAddress_def chat_message_listener_def split: sum.splits)

lemma inv_onMounted: "invocations (snd (onMounted now r i s)) = invocations (snd (initP2P now r i s))"
  by (simp add: onMounted_def split: prod.splits)


lemma inv_handle:
  "invocations (snd (handle now ev s)) =
     (case ev of
        Mounted r i \<Rightarrow> (case r of Inr _ \<Rightarrow> [(''init_p2p'', []), (''get_node_info'', [])]
                                  | Inl _ \<Rightarrow> [(''init_p2p'', [])])
      | IntervalFired i \<Rightarrow> [(''get_node_info'', [])]
      | SendMessage r \<Rightarrow>
          (if trim (inputMessage s) = [] then []
           else [(''send_message'', [(''message'', inputMessage s)])])
      | JoinRoom r \<Rightarrow>
          (if trim (roomInput s) = [] then []
           else [(''join_room'', [(''roomName'', roomInput s)])])
      | ConnectToPeer r \<Rightarrow>
          (if trim (peerAddressInput s) = [] then []
           else [(''connect_to_peer'', [(''addr'', peerAddressInput s)])])
      | _ \<Rightarrow> [])"
  by (cases ev)
     (simp_all add: inv_sendMessage inv_joinRoom inv_connectToPeer inv_updateNodeInfo
        inv_initP2P inv_other inv_onMounted)

lemma inv_run_Cons:
  "invocations (snd (run ((now, ev) # evs) s)) =
     invocations (snd (handle now ev s)) @ invocations (snd (run evs (fst (handle now ev s))))"
  by (simp add: invocations_append split: prod.splits)

lemma handle_in_table:
  "(c, a) \<in> set (invocations (snd (handle now ev s))) \<Longrightarrow> (c, map fst a) \<in> set command_table"
  unfolding inv_handle
  by (cases ev) (auto simp: command_table_def split: sum.splits if_splits)

lemma run_in_table:
  "(c, a) \<in> set (invocations (snd (run evs s))) \<Longrightarrow> (c, map fst a) \<in> set command_table"
proof (induction evs arbitrary: s)
  case Nil
  then show ?case by simp
next
  case (Cons tev evs)
  obtain now ev where tev: "tev = (now, ev)" by (cases tev)
  from Cons.prems have
    "(c, a) \<in> set (invocations (snd (handle now ev s)))
     \<or> (c, a) \<in> set (invocations (snd (run evs (fst (handle now ev s)))))"
    unfolding tev inv_run_Cons by simp
  then show ?case using Cons.IH handle_in_table by blast
qed

text \<open>
  Claim C1. The commands the chat window invokes are exactly the five of the command
  table, \<^verbatim>\<open>init_p2p\<close>, \<^verbatim>\<open>get_node_info\<close>, \<^verbatim>\<open>send_message\<close>, \<^verbatim>\<open>join_room\<close> and
  \<^verbatim>\<open>connect_to_peer\<close>: every \<open>invoke\<close> of any run of the component names a command of
  the table with the keys the table gives, and each of the five is invoked by a handler.
  \<^verbatim>\<open>send_message\<close> is invoked with \<open>{message: inputMessage}\<close>, \<^verbatim>\<open>join_room\<close> with
  \<open>{roomName: roomInput}\<close> and \<^verbatim>\<open>connect_to_peer\<close> with \<open>{addr: peerAddressInput}\<close>.
\<close>

theorem command_surface:
  "((c, a) \<in> set (invocations (snd (run evs s))) \<longrightarrow> (c, map fst a) \<in> set command_table)
   \<and> map fst command_table =
       [''init_p2p'', ''get_node_info'', ''send_message'', ''join_room'', ''connect_to_peer'']
   \<and> invocations (snd (initP2P now (Inr ident) info s)) =
       [(''init_p2p'', []), (''get_node_info'', [])]
   \<and> invocations (snd (updateNodeInfo info s)) = [(''get_node_info'', [])]
   \<and> invocations (snd (sendMessage now reply s)) =
       (if trim (inputMessage s) = [] then []
        else [(''send_message'', [(''message'', inputMessage s)])])
   \<and> invocations (snd (joinRoom now reply s)) =
       (if trim (roomInput s) = [] then []
        else [(''join_room'', [(''roomName'', roomInput s)])])
   \<and> invocations (snd (connectToPeer now reply s)) =
       (if trim (peerAddressInput s) = [] then []
        else [(''connect_to_peer'', [(''addr'', peerAddressInput s)])])"
  using run_in_table [of c a evs s]
  by (simp add: inv_sendMessage inv_joinRoom inv_connectToPeer inv_updateNodeInfo inv_initP2P
        command_table_def)

theorem command_surface_witness:
  "(''send_message'', [(''message'', js ''hi'')])
     \<in> set (invocations (snd (run [(js ''t0'', Mounted (Inr (js ''me'')) (Inl (js ''down''))),
                                     (js ''t1'', SendMessage (Inr ()))] demo_app)))
   \<and> (''send_message'', [''message'']) \<in> set command_table
   \<and> invocations (snd (joinRoom (js ''t1'') (Inr ()) demo_app)) =
       [(''join_room'', [(''roomName'', js ''lobby'')])]
   \<and> invocations (snd (connectToPeer (js ''t1'') (Inr ()) demo_app)) =
       [(''connect_to_peer'', [(''addr'', js ''/ip4/10.0.0.2/tcp/4001/p2p/12D3KooWPeer'')])]"
proof -
  have t: "trim (js ''hi'') = js ''hi''" "trim (js ''lobby'') = js ''lobby''"
    "trim (js ''/ip4/10.0.0.2/tcp/4001/p2p/12D3KooWPeer'') = js ''/ip4/10.0.0.2/tcp/4001/p2p/12D3KooWPeer''"
    by (simp_all add: trim_def js_def is_white_def)
  have d: "inputMessage demo_app = js ''hi''" "roomInput demo_app = js ''lobby''"
    "peerAddressInput demo_app = js ''/ip4/10.0.0.2/tcp/4001/p2p/12D3KooWPeer''"
    by (simp_all add: demo_app_def)
  have m: "(''send_message'', [(''message'', js ''hi'')])
     \<in> set (invocations (snd (run [(js ''t0'', Mounted (Inr (js ''me'')) (Inl (js ''down''))),
                                     (js ''t1'', SendMessage (Inr ()))] demo_app)))"
    by (simp add: t demo_app_def initial_app_def onMounted_def initP2P_def initP2P_resume_def
          updateNodeInfo_resume_def sendMessage_def sendMessage_resume_def)
  note c = command_surface [of "''send_message''" "[(''message'', js ''hi'')]"
        "[(js ''t0'', Mounted (Inr (js ''me'')) (Inl (js ''down''))), (js ''t1'', SendMessage (Inr ()))]"
        demo_app "js ''t1''" "js ''me''" "Inl (js ''down'')" "Inr ()"]
  from c m have "(''send_message'', map fst [(''message'', js ''hi'')]) \<in> set command_table"
    by blast
  moreover from c have "invocations (snd (joinRoom (js ''t1'') (Inr ()) demo_app)) =
       [(''join_room'', [(''roomName'', js ''lobby'')])]"
    by (simp add: t d)
  moreover from c have "invocations (snd (connectToPeer (js ''t1'') (Inr ()) demo_app)) =
       [(''connect_to_peer'', [(''addr'', js ''/ip4/10.0.0.2/tcp/4001/p2p/12D3KooWPeer'')])]"
    by (simp add: t d)
  ultimately show ?thesis using m by simp
qed

lemma poll_times_resume: "poll_times (snd (updateNodeInfo_resume info s)) t = []"
  by (cases info) (simp_all add: updateNodeInfo_resume_def)

lemma upt_from_0: "0 # map (\<lambda>k. k * p) [1..<Suc n] = map (\<lambda>k. k * (p::nat)) [0..<Suc n]"
  by (simp add: upt_rec)

text \<open>
  Claim C7. When \<^verbatim>\<open>init_p2p\<close> resolves, \<open>initP2P\<close> invokes \<^verbatim>\<open>get_node_info\<close> once at
  once and registers \<open>updateNodeInfo\<close> on an interval of 5000 ms, the 5 seconds of the
  specification: the invocations of \<^verbatim>\<open>get_node_info\<close> up to \<open>t\<close> ms are at
  0, 5000, 10000, ..., each firing invoking it once. When \<^verbatim>\<open>init_p2p\<close> rejects there
  is neither an invocation nor an interval.
\<close>

theorem refresh_cadence:
  "snd (initP2P now (Inr ident) info s) =
     Invoke ''init_p2p'' [] # Invoke ''get_node_info'' [] # SetInterval UpdateNodeInfo 5000 #
     snd (updateNodeInfo_resume info (s\<lparr>peerID := ident, isInitialized := True\<rparr>))
   \<and> poll_times (snd (initP2P now (Inr ident) info s)) t =
       map (\<lambda>k. k * 5000) [0..<Suc (t div 5000)]
   \<and> invocations (snd (handle now' (IntervalFired info') s')) = [(''get_node_info'', [])]
   \<and> poll_times (snd (initP2P now (Inl err) info s)) t = []
   \<and> (\<forall>p. SetInterval UpdateNodeInfo p \<notin> set (snd (initP2P now (Inl err) info s)))"
proof -
  have fx: "snd (initP2P now (Inr ident) info s) =
     Invoke ''init_p2p'' [] # Invoke ''get_node_info'' [] # SetInterval UpdateNodeInfo 5000 #
     snd (updateNodeInfo_resume info (s\<lparr>peerID := ident, isInitialized := True\<rparr>))"
    by (simp add: initP2P_def initP2P_resume_def Let_def split: prod.splits)
  have "poll_times (snd (initP2P now (Inr ident) info s)) t = 0 # interval_firings 5000 t"
    unfolding fx by (simp add: poll_times_resume)
  also have "\<dots> = map (\<lambda>k. k * 5000) [0..<Suc (t div 5000)]"
    unfolding interval_firings_def using upt_from_0 [of 5000 "t div 5000"] by simp
  finally have polls: "poll_times (snd (initP2P now (Inr ident) info s)) t =
       map (\<lambda>k. k * 5000) [0..<Suc (t div 5000)]" .
  have fail: "snd (initP2P now (Inl err) info s) =
      [Invoke ''init_p2p'' [], ConsoleError ''Failed to initialize P2P:'' err, ScrollToBottom]"
    by (simp add: initP2P_def initP2P_resume_def addSystemMessage_def)
  show ?thesis
    using fx polls by (simp add: fail inv_updateNodeInfo)
qed

theorem refresh_cadence_witness:
  "poll_times (snd (initP2P (js ''t0'') (Inr (js ''me''))
       (Inr \<lparr>info_addresses = [], info_connected_peers = []\<rparr>) initial_app)) 12000 =
     [0, 5000, 10000]
   \<and> poll_times (snd (initP2P (js ''t0'') (Inl (js ''bind failed''))
       (Inr \<lparr>info_addresses = [], info_connected_peers = []\<rparr>) initial_app)) 12000 = []"
proof -
  note r = refresh_cadence [of "js ''t0''" "js ''me''"
      "Inr \<lparr>info_addresses = [], info_connected_peers = []\<rparr>" initial_app 12000
      "js ''t0''" "Inr \<lparr>info_addresses = [], info_connected_peers = []\<rparr>" initial_app
      "js ''bind failed''"]
  have "map (\<lambda>k. k * 5000) [0..<Suc (12000 div 5000)] = [0, 5000, 10000::nat]"
    by (simp add: upt_rec)
  with r [THEN conjunct2, THEN conjunct1]
       r [THEN conjunct2, THEN conjunct2, THEN conjunct2, THEN conjunct1]
  show ?thesis by (simp only:)
qed

lemma handle_arg_not_blank:
  assumes "(c, a) \<in> set (invocations (snd (handle now ev s)))"
    and "c \<in> {''send_message'', ''join_room'', ''connect_to_peer''}"
  shows "\<exists>k v. a = [(k, v)] \<and> trim v \<noteq> []"
  using assms unfolding inv_handle
  by (cases ev) (auto split: sum.splits if_splits)

lemma run_arg_not_blank:
  assumes "(c, a) \<in> set (invocations (snd (run evs s)))"
    and "c \<in> {''send_message'', ''join_room'', ''connect_to_peer''}"
  shows "\<exists>k v. a = [(k, v)] \<and> trim v \<noteq> []"
  using assms
proof (induction evs arbitrary: s)
  case Nil
  then show ?case by simp
next
  case (Cons tev evs)
  obtain now ev where tev: "tev = (now, ev)" by (cases tev)
  from Cons.prems(1) have
    "(c, a) \<in> set (invocations (snd (handle now ev s)))
     \<or> (c, a) \<in> set (invocations (snd (run evs (fst (handle now ev s)))))"
    unfolding tev inv_run_Cons by simp
  then show ?case
  proof
    assume "(c, a) \<in> set (invocations (snd (handle now ev s)))"
    then show ?thesis using Cons.prems(2) by (rule handle_arg_not_blank)
  next
    assume "(c, a) \<in> set (invocations (snd (run evs (fst (handle now ev s)))))"
    then show ?thesis using Cons.prems(2) by (rule Cons.IH)
  qed
qed

lemma trim_nonempty: "trim v \<noteq> [] \<Longrightarrow> v \<noteq> [] \<and> (\<exists>ch \<in> set v. \<not> is_white ch)"
  using trim_empty_iff [of v] by auto

text \<open>
  Claim C8. The chat window never invokes \<^verbatim>\<open>send_message\<close>, \<^verbatim>\<open>join_room\<close> or
  \<^verbatim>\<open>connect_to_peer\<close> with an empty or whitespace-only argument: in every run of the
  component, the argument of such an invocation is non-empty and has a code unit that
  is not whitespace; a handler whose input is empty or all whitespace returns at once,
  without an invocation or a change. So no empty message, room name or address reaches
  the backend through these handlers.
\<close>

theorem ui_never_sends_blank:
  "((c, a) \<in> set (invocations (snd (run evs s)))
      \<and> c \<in> {''send_message'', ''join_room'', ''connect_to_peer''}
     \<longrightarrow> (\<exists>k v. a = [(k, v)] \<and> v \<noteq> [] \<and> (\<exists>ch \<in> set v. \<not> is_white ch)))
   \<and> ((\<forall>ch \<in> set (inputMessage s). is_white ch) \<longrightarrow> sendMessage now reply s = (s, []))
   \<and> ((\<forall>ch \<in> set (roomInput s). is_white ch) \<longrightarrow> joinRoom now reply s = (s, []))
   \<and> ((\<forall>ch \<in> set (peerAddressInput s). is_white ch) \<longrightarrow> connectToPeer now reply s = (s, []))"
proof -
  have "\<exists>k v. a = [(k, v)] \<and> v \<noteq> [] \<and> (\<exists>ch \<in> set v. \<not> is_white ch)"
    if "(c, a) \<in> set (invocations (snd (run evs s)))"
      and "c \<in> {''send_message'', ''join_room'', ''connect_to_peer''}"
  proof -
    from that obtain k v where "a = [(k, v)]" "trim v \<noteq> []"
      using run_arg_not_blank by blast
    then show ?thesis using trim_nonempty by blast
  qed
  then show ?thesis
    by (simp add: sendMessage_def joinRoom_def connectToPeer_def trim_empty_iff)
qed

theorem ui_never_sends_blank_witness:
  "(''send_message'', [(''message'', js ''hi'')])
     \<in> set (invocations (snd (run [(js ''t1'', SendMessage (Inr ()))] demo_app)))
   \<and> js ''hi'' \<noteq> [] \<and> (\<exists>ch \<in> set (js ''hi''). \<not> is_white ch)
   \<and> trim (js ''  '') = []
   \<and> sendMessage (js ''t1'') (Inr ()) (initial_app\<lparr>inputMessage := js ''  ''\<rparr>)
       = (initial_app\<lparr>inputMessage := js ''  ''\<rparr>, [])
   \<and> joinRoom (js ''t1'') (Inr ()) initial_app = (initial_app, [])
   \<and> connectToPeer (js ''t1'') (Inr ()) initial_app = (initial_app, [])"
proof -
  have t: "trim (js ''hi'') = js ''hi''"
    by (simp add: trim_def js_def is_white_def)
  have m: "(''send_message'', [(''message'', js ''hi'')])
     \<in> set (invocations (snd (run [(js ''t1'', SendMessage (Inr ()))] demo_app)))"
    by (simp add: t demo_app_def initial_app_def sendMessage_def sendMessage_resume_def)
  have w: "\<forall>ch \<in> set (js ''  ''). is_white ch"
    by (simp add: js_def is_white_def)
  have e: "roomInput initial_app = []" "peerAddressInput initial_app = []"
    by (simp_all add: initial_app_def)
  note u = ui_never_sends_blank [of "''send_message''" "[(''message'', js ''hi'')]"
      "[(js ''t1'', SendMessage (Inr ()))]" demo_app]
  note v = ui_never_sends_blank [of "''send_message''" "[]" "[]"
      "initial_app\<lparr>inputMessage := js ''  ''\<rparr>" "js ''t1''" "Inr ()"]
  note x = ui_never_sends_blank [of "''send_message''" "[]" "[]" initial_app "js ''t1''" "Inr ()"]
  from u m have "js ''hi'' \<noteq> [] \<and> (\<exists>ch \<in> set (js ''hi''). \<not> is_white ch)" by simp
  moreover from v w have "sendMessage (js ''t1'') (Inr ()) (initial_app\<lparr>inputMessage := js ''  ''\<rparr>)
       = (initial_app\<lparr>inputMessage := js ''  ''\<rparr>, [])" by simp
  moreover from x e have "joinRoom (js ''t1'') (Inr ()) initial_app = (initial_app, [])"
    "connectToPeer (js ''t1'') (Inr ()) initial_app = (initial_app, [])" by simp_all
  moreover have "trim (js ''  '') = []" using w by (simp add: trim_empty_iff)
  ultimately show ?thesis using m by blast
qed

text \<open>
  Claim C9. When the invocation of \<^verbatim>\<open>send_message\<close> rejects, \<open>inputMessage\<close> is
  unchanged (it is cleared only by the continuation of a resolved invocation); when
  \<^verbatim>\<open>join_room\<close> rejects, \<open>currentRoom\<close>, \<open>joinRoomMode\<close> and \<open>roomInput\<close> are unchanged.
  In both cases the component's state changes only by one message appended to
  \<open>messages\<close>, with \<open>from = 'System'\<close> and \<open>is_self = false\<close>. (A handler whose input trims
  to the empty string invokes nothing, so nothing rejects and nothing changes.)
\<close>

theorem handlers_atomic_on_failure:
  "fst (sendMessage now (Inl err) s) =
     (if trim (inputMessage s) = [] then s
      else s\<lparr>messages := messages s @
             [\<lparr>from' = js ''System'',
               content = 0x26A0 # js '' Failed to send message: '' @ err,
               timestamp = now, is_self = False\<rparr>]\<rparr>)
   \<and> fst (sendMessage_resume now (Inl err) s) =
       s\<lparr>messages := messages s @
          [\<lparr>from' = js ''System'',
            content = 0x26A0 # js '' Failed to send message: '' @ err,
            timestamp = now, is_self = False\<rparr>]\<rparr>
   \<and> inputMessage (fst (sendMessage now (Inl err) s)) = inputMessage s
   \<and> fst (sendMessage_resume now (Inr ()) s) = s\<lparr>inputMessage := []\<rparr>
   \<and> fst (joinRoom now (Inl err) s) =
     (if trim (roomInput s) = [] then s
      else s\<lparr>messages := messages s @
             [\<lparr>from' = js ''System'',
               content = 0x26A0 # js '' Failed to join room: '' @ err,
               timestamp = now, is_self = False\<rparr>]\<rparr>)
   \<and> fst (joinRoom_resume now (Inl err) s) =
       s\<lparr>messages := messages s @
          [\<lparr>from' = js ''System'',
            content = 0x26A0 # js '' Failed to join room: '' @ err,
            timestamp = now, is_self = False\<rparr>]\<rparr>
   \<and> currentRoom (fst (joinRoom now (Inl err) s)) = currentRoom s
   \<and> joinRoomMode (fst (joinRoom now (Inl err) s)) = joinRoomMode s
   \<and> roomInput (fst (joinRoom now (Inl err) s)) = roomInput s"
  by (simp add: sendMessage_def sendMessage_resume_def joinRoom_def joinRoom_resume_def
        addSystemMessage_def)

theorem handlers_atomic_on_failure_witness:
  "fst (sendMessage (js ''t1'') (Inl (js ''NotJoinedError'')) demo_app) =
     demo_app\<lparr>messages :=
       [\<lparr>from' = js ''System'',
         content = 0x26A0 # js '' Failed to send message: NotJoinedError'',
         timestamp = js ''t1'', is_self = False\<rparr>]\<rparr>
   \<and> fst (joinRoom (js ''t1'') (Inl (js ''InvalidRoomNameError'')) demo_app) =
     demo_app\<lparr>messages :=
       [\<lparr>from' = js ''System'',
         content = 0x26A0 # js '' Failed to join room: InvalidRoomNameError'',
         timestamp = js ''t1'', is_self = False\<rparr>]\<rparr>"
proof -
  have t: "trim (js ''hi'') = js ''hi''" "trim (js ''lobby'') = js ''lobby''"
    by (simp_all add: trim_def js_def is_white_def)
  have d: "inputMessage demo_app = js ''hi''" "roomInput demo_app = js ''lobby''"
    "messages demo_app = []"
    by (simp_all add: demo_app_def initial_app_def)
  have j: "js '' Failed to send message: '' @ js ''NotJoinedError'' = js '' Failed to send message: NotJoinedError''"
    "js '' Failed to join room: '' @ js ''InvalidRoomNameError'' = js '' Failed to join room: InvalidRoomNameError''"
    by (simp_all add: js_def)
  show ?thesis
    using handlers_atomic_on_failure [of "js ''t1''" "js ''NotJoinedError''" demo_app]
      handlers_atomic_on_failure [of "js ''t1''" "js ''InvalidRoomNameError''" demo_app]
    by (simp add: t d j)
qed

subsection \<open>The node\<close>

lemma subscriptions_fold_leave:
  "subscriptions (fold leave rooms n) = filter (\<lambda>r. r \<notin> set rooms) (subscriptions n)"
proof (induction rooms arbitrary: n)
  case Nil
  then show ?case by simp
next
  case (Cons room rooms)
  have "subscriptions (leave room n) = filter (\<lambda>r. r \<noteq> room) (subscriptions n)"
    by (simp add: leave_def removeAll_filter_not_eq) metis
  then show ?case using Cons.IH [of "leave room n"]
    by (auto intro: filter_cong)
qed

lemma subscriptions_join:
  "subscriptions (fst (snd (join room n))) =
     (if room = [] \<or> room \<in> set (subscriptions n) then subscriptions n else [room])"
  by (simp add: join_def subscribe_def subscriptions_fold_leave)

lemma subscriptions_step:
  "subscriptions (fst (snd (node_step e i n))) =
     (case i of JoinRoomCmd room \<Rightarrow> subscriptions (fst (snd (join room n)))
              | _ \<Rightarrow> subscriptions n)"
  by (cases i)
     (auto simp: publish_def connect_def receive_def disconnect_def Let_def
           split: option.splits dial_outcome.splits prod.splits)

lemma node_run_Cons:
  "fst (node_run e (i # is) n) = fst (node_run e is (fst (snd (node_step e i n))))"
  "snd (node_run e (i # is) n) =
     snd (snd (node_step e i n)) @ snd (node_run e is (fst (snd (node_step e i n))))"
  by (simp_all split: prod.splits)

lemma node_run_append:
  "fst (node_run e (is1 @ is2) n) = fst (node_run e is2 (fst (node_run e is1 n)))"
  "snd (node_run e (is1 @ is2) n) =
     snd (node_run e is1 n) @ snd (node_run e is2 (fst (node_run e is1 n)))"
  by (induction is1 arbitrary: n) (simp_all add: node_run_Cons del: node_run.simps(2))

lemma at_most_one_step:
  "length (subscriptions n) \<le> 1 \<Longrightarrow> length (subscriptions (fst (snd (node_step e i n)))) \<le> 1"
  unfolding subscriptions_step by (cases i) (simp_all add: subscriptions_join)

lemma at_most_one_run:
  "length (subscriptions n) \<le> 1 \<Longrightarrow> length (subscriptions (fst (node_run e is n))) \<le> 1"
proof (induction "is" arbitrary: n)
  case Nil
  then show ?case by simp
next
  case (Cons i "is")
  then show ?case unfolding node_run_Cons using at_most_one_step by blast
qed

lemma at_most_one_reachable:
  "length (subscriptions (fst (node_run e is (initial_node ident addrs)))) \<le> 1"
  by (rule at_most_one_run) (simp add: initial_node_def)

lemma emitted_append: "emitted (fx @ gx) = emitted fx @ emitted gx"
  by (induction fx rule: emitted.induct) simp_all

lemma emitted_map_net [simp]:
  "emitted (map NetUnsubscribe rooms) = []"
  "emitted (map (\<lambda>room. NetBroadcast room m) rooms) = []"
  by (induction rooms) simp_all


lemma not_joined_run:
  "\<forall>i \<in> set is. \<not> is_join i \<Longrightarrow> subscriptions n = [] \<Longrightarrow>
     subscriptions (fst (node_run e is n)) = []"
proof (induction "is" arbitrary: n)
  case Nil
  then show ?case by simp
next
  case (Cons i "is")
  from Cons.prems have "subscriptions (fst (snd (node_step e i n))) = []"
    unfolding subscriptions_step by (cases i) simp_all
  with Cons show ?case unfolding node_run_Cons by simp
qed

text \<open>
  Claim C3. \<^verbatim>\<open>send_message\<close> before any \<^verbatim>\<open>join_room\<close> call (after any inputs
  to a fresh node none of which is a join) fails with \<open>NotJoinedError\<close>, whatever the
  content; with an active room, \<open>publish\<close> of the empty content fails with
  \<open>EmptyMessageError\<close>. Both failures leave the node as it was and have no effect at
  all, so no \<^verbatim>\<open>chat-message\<close> is emitted; \<open>publish\<close> fails in no other way.
\<close>

theorem publish_validation:
  "((\<forall>i \<in> set is. \<not> is_join i) \<longrightarrow>
      node_step e (SendMessageCmd now text) (fst (node_run e is (initial_node ident addrs))) =
        (Inl NotJoinedError, fst (node_run e is (initial_node ident addrs)), []))
   \<and> (subscriptions n = [] \<longrightarrow> publish now text n = (Inl NotJoinedError, n, []))
   \<and> (subscriptions n \<noteq> [] \<longrightarrow> publish now [] n = (Inl EmptyMessageError, n, []))
   \<and> (fst (publish now text n) = Inl err \<longrightarrow>
        (err = NotJoinedError \<or> err = EmptyMessageError) \<and> snd (publish now text n) = (n, []))"
proof -
  have "subscriptions (fst (node_run e is (initial_node ident addrs))) = []"
    if "\<forall>i \<in> set is. \<not> is_join i"
    using that by (rule not_joined_run) (simp add: initial_node_def)
  then show ?thesis
    by (auto simp: publish_def Let_def split: if_splits)
qed

theorem publish_validation_witness:
  "\<not> is_join (ConnectToPeerCmd (js ''/ip4/10.0.0.2/tcp/4001/p2p/12D3KooWPeer''))
   \<and> fst (node_step demo_env (SendMessageCmd (js ''t1'') (js ''hi''))
        (fst (node_run demo_env [ConnectToPeerCmd (js ''/ip4/10.0.0.2/tcp/4001/p2p/12D3KooWPeer'')]
           (initial_node (js ''12D3KooWSelf'') [])))) = Inl NotJoinedError
   \<and> publish (js ''t1'') (js ''hi'') demo_node = (Inl NotJoinedError, demo_node, [])
   \<and> publish (js ''t1'') [] (subscribe (js ''lobby'') demo_node) =
        (Inl EmptyMessageError, subscribe (js ''lobby'') demo_node, [])"
proof -
  have a: "\<forall>i \<in> set [ConnectToPeerCmd (js ''/ip4/10.0.0.2/tcp/4001/p2p/12D3KooWPeer'')]. \<not> is_join i"
    by simp
  have b: "subscriptions demo_node = []"
    by (simp add: demo_node_def initial_node_def)
  have c: "subscriptions (subscribe (js ''lobby'') demo_node) \<noteq> []"
    by (simp add: subscribe_def)
  show ?thesis
    using a b c
      publish_validation [of "[ConnectToPeerCmd (js ''/ip4/10.0.0.2/tcp/4001/p2p/12D3KooWPeer'')]"
        demo_env "js ''t1''" "js ''hi''" "js ''12D3KooWSelf''" "[]" demo_node NotJoinedError]
      publish_validation [of "[]" demo_env "js ''t1''" "js ''hi''" "js ''12D3KooWSelf''" "[]"
        "subscribe (js ''lobby'') demo_node" NotJoinedError]
    by simp
qed

lemma receive_not_subscribed:
  "topic \<notin> set (subscriptions n) \<Longrightarrow> receive e topic sender ts text n = (n, [])"
  by (simp add: receive_def)

lemma inbound_unsubscribed_run:
  "\<forall>i \<in> set is. is_inbound_on room i \<Longrightarrow> room \<notin> set (subscriptions n) \<Longrightarrow>
     node_run e is n = (n, [])"
proof (induction "is" arbitrary: n)
  case Nil
  then show ?case by simp
next
  case (Cons i "is")
  from Cons.prems have "node_step e i n = (Inr (), n, [])"
    by (cases i) (simp_all add: receive_not_subscribed)
  with Cons show ?case by simp
qed

text \<open>
  Claim C4. \<open>join(room2)\<close> on a node joined to \<open>room1\<close> leaves \<open>room2\<close> as the only
  subscription: \<open>room1\<close> is no longer subscribed, and whatever other peers then publish
  to \<open>room1\<close> is not delivered. A node reached from a fresh one by any inputs is joined to
  at most one room.
\<close>

theorem join_replaces_room:
  "(subscriptions n = [room1] \<and> room2 \<noteq> [] \<and> room2 \<noteq> room1 \<longrightarrow>
      subscriptions (fst (snd (join room2 n))) = [room2]
      \<and> room1 \<notin> set (subscriptions (fst (snd (join room2 n))))
      \<and> ((\<forall>i \<in> set is. is_inbound_on room1 i) \<longrightarrow>
           emitted (snd (node_run e is (fst (snd (join room2 n))))) = []))
   \<and> length (subscriptions (fst (node_run e ins (initial_node ident addrs)))) \<le> 1"
proof -
  have "emitted (snd (node_run e is (fst (snd (join room2 n))))) = []"
    if "subscriptions n = [room1]" "room2 \<noteq> []" "room2 \<noteq> room1"
      and "\<forall>i \<in> set is. is_inbound_on room1 i"
  proof -
    from that have "room1 \<notin> set (subscriptions (fst (snd (join room2 n))))"
      by (simp add: subscriptions_join)
    with that(4) have "node_run e is (fst (snd (join room2 n))) = (fst (snd (join room2 n)), [])"
      by (rule inbound_unsubscribed_run)
    then show ?thesis by simp
  qed
  then show ?thesis
    using at_most_one_reachable [of e ins ident addrs]
    by (auto simp: subscriptions_join)
qed

text \<open>
  Claim C5. For a non-empty room name, \<open>join(R)\<close> succeeds, and a second \<open>join(R)\<close> right
  after it succeeds too, changes nothing and has no effect (no event, no subscription
  announced). On a node reached from a fresh one by any inputs, the subscriptions after
  the two calls are \<open>R\<close>, once.
\<close>

theorem join_idempotent:
  "(room \<noteq> [] \<longrightarrow>
      fst (join room n) = Inr ()
      \<and> join room (fst (snd (join room n))) = (Inr (), fst (snd (join room n)), []))
   \<and> (room \<noteq> [] \<longrightarrow>
      subscriptions (fst (snd (join room
         (fst (snd (join room (fst (node_run e is (initial_node ident addrs))))))))) = [room])"
proof -
  have one: "join room (fst (snd (join room n))) = (Inr (), fst (snd (join room n)), [])"
    if "room \<noteq> []" for n
  proof -
    from that have "room \<in> set (subscriptions (fst (snd (join room n))))"
      by (simp add: subscriptions_join)
    with that show ?thesis by (simp add: join_def [of room "fst (snd (join room n))"])
  qed
  have two: "subscriptions (fst (snd (join room (fst (node_run e is (initial_node ident addrs)))))) = [room]"
    if "room \<noteq> []"
  proof -
    let ?n = "fst (node_run e is (initial_node ident addrs))"
    have "length (subscriptions ?n) \<le> 1" by (rule at_most_one_reachable)
    then have "room \<in> set (subscriptions ?n) \<Longrightarrow> subscriptions ?n = [room]"
      by (cases "subscriptions ?n") auto
    with that show ?thesis by (auto simp: subscriptions_join)
  qed
  show ?thesis using one two by (simp add: join_def)
qed


theorem join_replaces_room_witness:
  "subscriptions (subscribe (js ''room1'') demo_node) = [js ''room1'']
   \<and> js ''room2'' \<noteq> [] \<and> js ''room2'' \<noteq> js ''room1''
   \<and> subscriptions (fst (snd (join (js ''room2'') (subscribe (js ''room1'') demo_node)))) =
       [js ''room2'']
   \<and> is_inbound_on (js ''room1'')
         (Inbound (js ''room1'') (js ''12D3KooWPeer'') (js ''t2'') (js ''hello''))
   \<and> emitted (snd (node_run demo_env
         [Inbound (js ''room1'') (js ''12D3KooWPeer'') (js ''t2'') (js ''hello'')]
         (fst (snd (join (js ''room2'') (subscribe (js ''room1'') demo_node)))))) = []"
proof -
  have a: "subscriptions (subscribe (js ''room1'') demo_node) = [js ''room1'']"
    by (simp add: subscribe_def demo_node_def initial_node_def)
  have b: "js ''room2'' \<noteq> []" "js ''room2'' \<noteq> js ''room1''"
    by (simp_all add: js_def)
  have c: "\<forall>i \<in> set [Inbound (js ''room1'') (js ''12D3KooWPeer'') (js ''t2'') (js ''hello'')].
         is_inbound_on (js ''room1'') i"
    by simp
  show ?thesis
    using a b c
      join_replaces_room [of "subscribe (js ''room1'') demo_node" "js ''room1''" "js ''room2''"
        "[Inbound (js ''room1'') (js ''12D3KooWPeer'') (js ''t2'') (js ''hello'')]" demo_env]
    by simp
qed

theorem join_idempotent_witness:
  "js ''lobby'' \<noteq> []
   \<and> fst (join (js ''lobby'') demo_node) = Inr ()
   \<and> join (js ''lobby'') (fst (snd (join (js ''lobby'') demo_node))) =
       (Inr (), fst (snd (join (js ''lobby'') demo_node)), [])
   \<and> subscriptions (fst (snd (join (js ''lobby'')
        (fst (snd (join (js ''lobby'') (fst (node_run demo_env [] demo_node)))))))) = [js ''lobby'']"
proof -
  have a: "js ''lobby'' \<noteq> []" by simp
  show ?thesis
    using a join_idempotent [of "js ''lobby''" demo_node demo_env "[]" "js ''12D3KooWSelf''"
        "[js ''/ip4/10.0.0.1/tcp/4001/p2p/12D3KooWSelf'']"]
    unfolding demo_node_def by blast
qed

lemma node_step_validation:
  assumes "fst (node_step e i n) = Inl err"
    and "err = InvalidAddressError \<or> err = InvalidRoomNameError \<or> err = EmptyMessageError"
  shows "snd (node_step e i n) = (n, [])"
  using assms
  by (cases i)
     (auto simp: publish_def join_def connect_def Let_def
           split: if_splits option.splits dial_outcome.splits prod.splits)

text \<open>
  Claim C6. \<open>connect_to_peer("")\<close> fails with \<open>InvalidAddressError\<close> and registers no
  PeerConnection. Validation is local: a command that fails with \<open>InvalidAddressError\<close>,
  \<open>InvalidRoomNameError\<close> or \<open>EmptyMessageError\<close> has had no effect, in particular no
  network I/O, and has not changed the node; a dial is attempted only for an address that
  parsed. A \<open>connect\<close> that fails, for whatever reason, leaves the node and so the
  connected peers as they were, and notifies no peer-set change.
\<close>

theorem connect_validation:
  "connect e [] n = (Inl InvalidAddressError, n, [])
   \<and> connections (fst (snd (connect e [] n))) = connections n
   \<and> (parse_address addr = None \<longrightarrow> connect e addr n = (Inl InvalidAddressError, n, []))
   \<and> (fst (node_step e i n) = Inl err
        \<and> (err = InvalidAddressError \<or> err = InvalidRoomNameError \<or> err = EmptyMessageError)
       \<longrightarrow> snd (node_step e i n) = (n, []))
   \<and> (fst (node_step e i n) = Inl err
        \<and> (err = InvalidAddressError \<or> err = InvalidRoomNameError \<or> err = EmptyMessageError)
       \<longrightarrow> filter is_network_io (snd (snd (node_step e i n))) = [])
   \<and> (NetDial a \<in> set (snd (snd (connect e addr n))) \<longrightarrow> a = addr \<and> parse_address addr \<noteq> None)
   \<and> (fst (connect e addr n) = Inl err \<longrightarrow>
        fst (snd (connect e addr n)) = n
        \<and> connected_peers (fst (snd (connect e addr n))) = connected_peers n
        \<and> PeerSetChanged \<notin> set (snd (snd (connect e addr n))))"
proof -
  have empty: "connect e [] n = (Inl InvalidAddressError, n, [])"
    by (simp add: connect_def parse_address_def)
  have failed: "fst (snd (connect e addr n)) = n \<and> PeerSetChanged \<notin> set (snd (snd (connect e addr n)))"
    if "fst (connect e addr n) = Inl err"
    using that
    by (auto simp: connect_def split: option.splits if_splits dial_outcome.splits)
  have dialled: "a = addr \<and> parse_address addr \<noteq> None"
    if "NetDial a \<in> set (snd (snd (connect e addr n)))"
    using that
    by (auto simp: connect_def split: option.splits if_splits dial_outcome.splits)
  have local: "snd (node_step e i n) = (n, [])"
    if "fst (node_step e i n) = Inl err"
      "err = InvalidAddressError \<or> err = InvalidRoomNameError \<or> err = EmptyMessageError"
    using that by (rule node_step_validation)
  have c1: "parse_address addr = None \<longrightarrow> connect e addr n = (Inl InvalidAddressError, n, [])"
    by (simp add: connect_def)
  show ?thesis
    using empty failed dialled local c1 by simp
qed

theorem connect_validation_witness:
  "parse_address (js ''not an address'') = None
   \<and> connect demo_env (js ''not an address'') demo_node = (Inl InvalidAddressError, demo_node, [])
   \<and> fst (connect demo_env (js ''/ip4/10.0.0.9/tcp/4001/p2p/12D3KooWGone'') demo_node) =
        Inl UnreachablePeerError
   \<and> connected_peers (fst (snd (connect demo_env (js ''/ip4/10.0.0.9/tcp/4001/p2p/12D3KooWGone'') demo_node)))
        = connected_peers demo_node
   \<and> fst (node_step demo_env (JoinRoomCmd []) demo_node) = Inl InvalidRoomNameError
   \<and> snd (node_step demo_env (JoinRoomCmd []) demo_node) = (demo_node, [])"
proof -
  have a: "parse_address (js ''not an address'') = None"
    by (simp add: parse_address_def js_def)
  have b: "fst (connect demo_env (js ''/ip4/10.0.0.9/tcp/4001/p2p/12D3KooWGone'') demo_node) =
        Inl UnreachablePeerError"
    by (simp add: connect_def parse_address_def js_def demo_env_def demo_node_def initial_node_def)
  have c: "fst (node_step demo_env (JoinRoomCmd []) demo_node) = Inl InvalidRoomNameError"
    by (simp add: join_def)
  show ?thesis
    using a b c
      connect_validation [where e = demo_env and n = demo_node and addr = "js ''not an address''"
        and i = "JoinRoomCmd []" and err = InvalidRoomNameError]
      connect_validation [where e = demo_env and n = demo_node
        and addr = "js ''/ip4/10.0.0.9/tcp/4001/p2p/12D3KooWGone''"
        and i = "JoinRoomCmd []" and err = UnreachablePeerError]
    by simp
qed


lemma listener_run:
  "run (map (\<lambda>(t, p). (t, ChatMessage p)) tps) s =
     (s\<lparr>messages := messages s @ map snd tps\<rparr>, map (\<lambda>_. ScrollToBottom) tps)"
proof (induction tps arbitrary: s)
  case Nil
  then show ?case by simp
next
  case (Cons tp tps)
  obtain t p where tp: "tp = (t, p)" by (cases tp)
  show ?case
    unfolding tp using Cons.IH [of "s\<lparr>messages := messages s @ [p]\<rparr>"]
    by (simp add: chat_message_listener_def)
qed

lemma emitted_publish:
  "emitted (snd (snd (publish now text n))) =
     (if subscriptions n \<noteq> [] \<and> text \<noteq> []
      then [\<lparr>from' = identity n, content = text, timestamp = now, is_self = True\<rparr>]
      else [])"
  by (simp add: publish_def Let_def)

lemma emitted_receive:
  "emitted (snd (receive e topic sender ts text n)) =
     (if topic \<in> set (subscriptions n) \<and> (sender, ts, content_hash e text) \<notin> set (recent n)
      then [\<lparr>from' = sender, content = text, timestamp = ts, is_self = False\<rparr>]
      else [])"
  by (simp add: receive_def Let_def)

lemma receive_remembers:
  "topic \<in> set (subscriptions n) \<Longrightarrow> 0 < dedup_window e \<Longrightarrow>
     (sender, ts, content_hash e text) \<in> set (recent (fst (receive e topic sender ts text n)))
     \<and> subscriptions (fst (receive e topic sender ts text n)) = subscriptions n"
  by (cases "dedup_window e") (simp_all add: receive_def Let_def)

lemma emitted_other:
  "emitted (snd (snd (join room n))) = []"
  "emitted (snd (snd (connect e addr n))) = []"
  "emitted (snd (disconnect rid n)) = []"
  by (simp_all add: join_def connect_def disconnect_def emitted_append
        split: option.splits dial_outcome.splits)

text \<open>
  Claim C2. A \<^verbatim>\<open>send_message\<close> that succeeds emits exactly one \<^verbatim>\<open>chat-message\<close>,
  \<open>{from: the node's identifier, content, timestamp, is_self: true}\<close>; a message received
  on the joined topic and not in the recent history emits exactly one,
  \<open>{from: senderId, content, timestamp, is_self: false}\<close>, and the same message received
  again right after emits none; nothing else emits. The events of a run are those of
  its steps in the order of the inputs. The listener of the chat window appends each
  payload to \<open>messages\<close> as it is, in the order of arrival.
\<close>

theorem chat_message_delivery:
  "emitted (snd (snd (node_step e (SendMessageCmd now body) n))) =
     (if subscriptions n \<noteq> [] \<and> body \<noteq> []
      then [\<lparr>from' = identity n, content = body, timestamp = now, is_self = True\<rparr>]
      else [])
   \<and> emitted (snd (snd (node_step e (Inbound topic sender ts body) n))) =
     (if topic \<in> set (subscriptions n) \<and> (sender, ts, content_hash e body) \<notin> set (recent n)
      then [\<lparr>from' = sender, content = body, timestamp = ts, is_self = False\<rparr>]
      else [])
   \<and> (0 < dedup_window e \<longrightarrow>
        emitted (snd (node_run e
          [Inbound topic sender ts body, Inbound topic sender ts body] n)) =
        emitted (snd (snd (node_step e (Inbound topic sender ts body) n))))
   \<and> emitted (snd (snd (node_step e (JoinRoomCmd room) n))) = []
   \<and> emitted (snd (snd (node_step e (ConnectToPeerCmd addr) n))) = []
   \<and> emitted (snd (snd (node_step e (PeerGone rid) n))) = []
   \<and> emitted (snd (node_run e (ins1 @ ins2) n)) =
       emitted (snd (node_run e ins1 n)) @ emitted (snd (node_run e ins2 (fst (node_run e ins1 n))))
   \<and> fst (chat_message_listener payload s) = s\<lparr>messages := messages s @ [payload]\<rparr>
   \<and> messages (fst (run (map (\<lambda>(t, p). (t, ChatMessage p)) tps) s)) = messages s @ map snd tps"
proof -
  have step_in: "snd (snd (node_step e (Inbound topic sender ts body) m)) =
      snd (receive e topic sender ts body m)"
    "fst (snd (node_step e (Inbound topic sender ts body) m)) =
      fst (receive e topic sender ts body m)" for m
    by (simp_all split: prod.splits)
  have dup: "emitted (snd (node_run e
          [Inbound topic sender ts body, Inbound topic sender ts body] n)) =
        emitted (snd (snd (node_step e (Inbound topic sender ts body) n)))"
    if w: "0 < dedup_window e"
  proof (cases "topic \<in> set (subscriptions n)")
    case True
    from receive_remembers [OF True w, of sender ts body]
    have "emitted (snd (receive e topic sender ts body (fst (receive e topic sender ts body n)))) = []"
      by (simp add: emitted_receive)
    then show ?thesis
      unfolding node_run_Cons step_in by (simp add: emitted_append)
  next
    case False
    then show ?thesis
      unfolding node_run_Cons step_in by (simp add: emitted_append receive_not_subscribed)
  qed
  have other: "emitted (snd (snd (node_step e (PeerGone rid) n))) = []"
    by (simp add: emitted_other split: prod.splits)
  show ?thesis
    using dup other
    by (simp add: step_in emitted_publish emitted_receive emitted_other node_run_append
          emitted_append listener_run chat_message_listener_def del: node_run.simps)
qed

theorem chat_message_delivery_witness:
  "0 < dedup_window demo_env
   \<and> emitted (snd (snd (node_step demo_env (SendMessageCmd (js ''t1'') (js ''hi''))
         (subscribe (js ''lobby'') demo_node)))) =
     [\<lparr>from' = js ''12D3KooWSelf'', content = js ''hi'', timestamp = js ''t1'', is_self = True\<rparr>]
   \<and> emitted (snd (node_run demo_env
       [Inbound (js ''lobby'') (js ''12D3KooWPeer'') (js ''t2'') (js ''yo''),
        Inbound (js ''lobby'') (js ''12D3KooWPeer'') (js ''t2'') (js ''yo'')]
       (subscribe (js ''lobby'') demo_node))) =
     [\<lparr>from' = js ''12D3KooWPeer'', content = js ''yo'', timestamp = js ''t2'', is_self = False\<rparr>]
   \<and> messages (fst (run (map (\<lambda>(t, p). (t, ChatMessage p))
        [(js ''t3'', \<lparr>from' = js ''12D3KooWPeer'', content = js ''yo'', timestamp = js ''t2'',
                      is_self = False\<rparr>)]) demo_app)) =
     [\<lparr>from' = js ''12D3KooWPeer'', content = js ''yo'', timestamp = js ''t2'', is_self = False\<rparr>]"
proof -
  let ?lobby = "subscribe (js ''lobby'') demo_node"
  let ?in = "Inbound (js ''lobby'') (js ''12D3KooWPeer'') (js ''t2'') (js ''yo'')"
  have w: "0 < dedup_window demo_env" by (simp add: demo_env_def)
  have s: "subscriptions ?lobby = [js ''lobby'']" "recent ?lobby = []"
    "identity ?lobby = js ''12D3KooWSelf''" "messages demo_app = []"
    by (simp_all add: subscribe_def demo_node_def initial_node_def demo_app_def initial_app_def)
  note c = chat_message_delivery [where e = demo_env and now = "js ''t1''" and body = "js ''hi''"
      and n = ?lobby and topic = "js ''lobby''" and sender = "js ''12D3KooWPeer''"
      and ts = "js ''t2''" and s = demo_app
      and tps = "[(js ''t3'', \<lparr>from' = js ''12D3KooWPeer'', content = js ''yo'',
                     timestamp = js ''t2'', is_self = False\<rparr>)]"]
  note d = chat_message_delivery [where e = demo_env and body = "js ''yo''"
      and n = ?lobby and topic = "js ''lobby''" and sender = "js ''12D3KooWPeer''"
      and ts = "js ''t2''"]
  have e2: "emitted (snd (snd (node_step demo_env (SendMessageCmd (js ''t1'') (js ''hi'')) ?lobby))) =
      [\<lparr>from' = js ''12D3KooWSelf'', content = js ''hi'', timestamp = js ''t1'', is_self = True\<rparr>]"
    using c [THEN conjunct1] by (simp only: s) simp_all
  have e3: "emitted (snd (node_run demo_env [?in, ?in] ?lobby)) =
      [\<lparr>from' = js ''12D3KooWPeer'', content = js ''yo'', timestamp = js ''t2'', is_self = False\<rparr>]"
    using d [THEN conjunct2, THEN conjunct1] d [THEN conjunct2, THEN conjunct2, THEN conjunct1] w
    by (simp only: s) simp_all
  have e4: "messages (fst (run (map (\<lambda>(t, p). (t, ChatMessage p))
        [(js ''t3'', \<lparr>from' = js ''12D3KooWPeer'', content = js ''yo'', timestamp = js ''t2'',
                      is_self = False\<rparr>)]) demo_app)) =
     [\<lparr>from' = js ''12D3KooWPeer'', content = js ''yo'', timestamp = js ''t2'', is_self = False\<rparr>]"
    using c [THEN conjunct2, THEN conjunct2, THEN conjunct2, THEN conjunct2, THEN conjunct2,
             THEN conjunct2, THEN conjunct2, THEN conjunct2]
    by (simp only: s) simp_all
  from w e2 e3 e4 show ?thesis by blast
qed

text \<open>
  The two errors for an empty input arise for an empty input only, so the chat window,
  whose arguments are never empty, cannot cause them.
\<close>

lemma empty_input_errors:
  "fst (publish now v n) = Inl EmptyMessageError \<Longrightarrow> v = []"
  "fst (join v n) = Inl InvalidRoomNameError \<Longrightarrow> v = []"
  by (auto simp: publish_def join_def Let_def split: if_splits)

end
